theory Spec2Isabelle
  imports Main
begin

section \<open>JavaScript values\<close>

text \<open>
  The services receive parsed JSON (webhook bodies, API replies) and read it with
  property accesses, \<open>||\<close>, \<open>&&\<close> and \<open>?.\<close>. A value is therefore one of the
  JSON shapes, or \<open>undefined\<close> for a property that is not there.

  Conventions of the model:
  \<^item> a string is the list of its code units; the model covers code units below 256
    (an Isabelle \<open>char\<close>);
  \<^item> a number is an integer (the only numbers the code computes with are
    \<open>Date.now()\<close> and an HTTP status); \<open>0\<close> is the falsy one, and its text is its
    decimal notation (as \<open>ToString\<close> gives it below \<open>10^21\<close>);
  \<^item> an object is the list of its own properties in enumeration order, read by key
    (the first entry of a key is the property). Objects are plain data, as
    \<open>JSON.parse\<close> builds them: no property holds a function, and the prototype
    plays no part (the model does not cover an object that carries an own
    \<open>toString\<close> or \<open>valueOf\<close>, nor a column named \<open>__proto__\<close>);
  \<^item> \<open>async\<close> functions are read sequentially: \<open>await\<close> of a call is its result,
    a rejected promise is a thrown exception;
  \<^item> \<open>console.log\<close> has no effect on results and is left out.
\<close>

datatype jsval =
    JUndefined
  | JNull
  | JBool bool
  | JNum int
  | JStr string
  | JArr "jsval list"
  | JObj "(string \<times> jsval) list"

text \<open>
  An exception carries the \<open>message\<close> that handlers read; the error of a rejected
  \<open>axios\<close> request carries its \<open>response\<close> as well (\<open>undefined\<close> when no reply
  came). The message of a \<open>TypeError\<close> raised by the engine is the engine's own text;
  the model writes a short one in its place, which like the engine's does not contain
  \<open>not configured\<close>, the one thing a handler looks for in a message.
\<close>

datatype exn = TypeError string | Error string | AxiosError jsval string

fun message :: "exn \<Rightarrow> string" where
  "message (TypeError m) = m"
| "message (Error m) = m"
| "message (AxiosError r m) = m"

text \<open>\<open>error.response\<close>\<close>

fun response_of :: "exn \<Rightarrow> jsval" where
  "response_of (AxiosError r m) = r"
| "response_of e = JUndefined"

text \<open>\<open>try { body } catch (error) { handler }\<close>\<close>

definition try_catch :: "(exn + 'a) \<Rightarrow> (exn \<Rightarrow> exn + 'a) \<Rightarrow> exn + 'a" where
  "try_catch body handler = (case body of Inl e \<Rightarrow> handler e | Inr v \<Rightarrow> Inr v)"

fun truthy :: "jsval \<Rightarrow> bool" where
  "truthy JUndefined = False"
| "truthy JNull = False"
| "truthy (JBool b) = b"
| "truthy (JNum n) = (n \<noteq> 0)"
| "truthy (JStr s) = (s \<noteq> [])"
| "truthy (JArr xs) = True"
| "truthy (JObj kvs) = True"

fun nullish :: "jsval \<Rightarrow> bool" where
  "nullish JUndefined = True"
| "nullish JNull = True"
| "nullish v = False"

text \<open>\<open>a || b\<close>, for operands whose evaluation cannot throw.\<close>

definition js_or :: "jsval \<Rightarrow> jsval \<Rightarrow> jsval" where
  "js_or a b = (if truthy a then a else b)"

subsection \<open>Decimal rendering and property keys\<close>

text \<open>The decimal digits of a number that is not negative, as \<open>ToString\<close> writes them.\<close>

definition digit_char :: "int \<Rightarrow> char" where
  "digit_char d = ''0123456789'' ! nat d"

function decimal :: "int \<Rightarrow> string" where
  "decimal n = (if n < 10 then [digit_char n] else decimal (n div 10) @ [digit_char (n mod 10)])"
  by pat_completeness auto
termination
  by (relation "measure nat") auto

declare decimal.simps [simp del]

text \<open>
  \<open>v[k]\<close> and \<open>v.k\<close> on a value that is neither \<open>null\<close> nor \<open>undefined\<close>. Arrays and
  strings answer \<open>length\<close> and their indices; the other keys the code reads
  (\<open>event\<close>, \<open>type\<close>, \<open>text\<close>, \<open>value\<close>, \<open>id\<close>, ...) exist on no built-in
  prototype, so a value without the own property answers \<open>undefined\<close>.
\<close>

definition index_of_key :: "string \<Rightarrow> nat \<Rightarrow> nat option" where
  "index_of_key k n = find (\<lambda>i. decimal (int i) = k) [0..<n]"

fun prop_of :: "jsval \<Rightarrow> string \<Rightarrow> jsval" where
  "prop_of (JObj kvs) k = (case map_of kvs k of Some v \<Rightarrow> v | None \<Rightarrow> JUndefined)"
| "prop_of (JArr xs) k =
     (if k = ''length'' then JNum (int (length xs))
      else case index_of_key k (length xs) of Some i \<Rightarrow> xs ! i | None \<Rightarrow> JUndefined)"
| "prop_of (JStr s) k =
     (if k = ''length'' then JNum (int (length s))
      else case index_of_key k (length s) of Some i \<Rightarrow> JStr [s ! i] | None \<Rightarrow> JUndefined)"
| "prop_of v k = JUndefined"

text \<open>\<open>v.k\<close> where \<open>v\<close> may be \<open>null\<close> or \<open>undefined\<close>: the read throws.\<close>

definition get_prop :: "jsval \<Rightarrow> string \<Rightarrow> exn + jsval" where
  "get_prop v k =
     (if nullish v then Inl (TypeError (''Cannot read properties of null or undefined (reading '' @ k @ '')''))
      else Inr (prop_of v k))"

text \<open>\<open>v?.k\<close>\<close>

definition opt :: "jsval \<Rightarrow> string \<Rightarrow> jsval" where
  "opt v k = (if nullish v then JUndefined else prop_of v k)"

text \<open>\<open>Object.keys(v)\<close> for a value that is neither \<open>null\<close> nor \<open>undefined\<close>.\<close>

fun Object_keys :: "jsval \<Rightarrow> string list" where
  "Object_keys (JObj kvs) = map fst kvs"
| "Object_keys (JArr xs) = map (\<lambda>i. decimal (int i)) [0..<length xs]"
| "Object_keys (JStr s) = map (\<lambda>i. decimal (int i)) [0..<length s]"
| "Object_keys v = []"

subsection \<open>Strings\<close>

definition is_digit :: "char \<Rightarrow> bool" where
  "is_digit c = (c \<in> set ''0123456789'')"

text \<open>\<open>s.startsWith(p)\<close>\<close>

fun startsWith :: "string \<Rightarrow> string \<Rightarrow> bool" where
  "startsWith s [] = True"
| "startsWith [] (p # ps) = False"
| "startsWith (c # cs) (p # ps) = (c = p \<and> startsWith cs ps)"

text \<open>\<open>s.includes(k)\<close>: \<open>k\<close> occurs in \<open>s\<close> as a contiguous substring.\<close>

fun str_includes :: "string \<Rightarrow> string \<Rightarrow> bool" where
  "str_includes [] k = (k = [])"
| "str_includes (c # cs) k = (startsWith (c # cs) k \<or> str_includes cs k)"

text \<open>
  \<open>s.toLowerCase()\<close> on code units below 256: the ASCII capitals and the Latin-1
  capitals (\<open>0xC0\<close> to \<open>0xDE\<close> without the multiplication sign \<open>0xD7\<close>) move up
  by 32.
\<close>

definition lower_char :: "char \<Rightarrow> char" where
  "lower_char c =
     (let n = (of_char c :: nat)
      in if (65 \<le> n \<and> n \<le> 90) \<or> (192 \<le> n \<and> n \<le> 222 \<and> n \<noteq> 215)
         then char_of (n + 32) else c)"

definition toLowerCase :: "string \<Rightarrow> string" where
  "toLowerCase s = map lower_char s"

section \<open>Monday service: column values\<close>

text \<open>
  \<open>extractPhone\<close> and \<open>extractEmail\<close> open with the same selection:
  \<^verbatim>\<open>
  let phone = '';
  if (typeof phoneData === 'string') phone = phoneData;
  else if (phoneData && phoneData.text) phone = phoneData.text;
  else if (phoneData && phoneData.value) phone = phoneData.value;
  \<close>
\<close>

definition is_string :: "jsval \<Rightarrow> bool" where
  "is_string v = (case v of JStr s \<Rightarrow> True | _ \<Rightarrow> False)"

definition select_text :: "jsval \<Rightarrow> jsval" where
  "select_text d =
     (if is_string d then d
      else if truthy d \<and> truthy (prop_of d ''text'') then prop_of d ''text''
      else if truthy d \<and> truthy (prop_of d ''value'') then prop_of d ''value''
      else JStr [])"

text \<open>\<open>phone.replace(/[^\d+]/g, '')\<close>: every code unit that is neither a digit nor \<open>+\<close> goes.\<close>

definition strip_phone :: "string \<Rightarrow> string" where
  "strip_phone s = filter (\<lambda>c. is_digit c \<or> c = CHR ''+'') s"

definition add_country_code :: "string \<Rightarrow> string" where
  "add_country_code p =
     (if length p = 11 \<and> \<not> startsWith p ''+'' then ''+55'' @ p
      else if length p = 10 \<and> \<not> startsWith p ''+'' then ''+55'' @ p
      else p)"

text \<open>
  \<open>extractPhone\<close>. When the selected value is not a string, \<open>phone.replace\<close> is not a
  function: the \<open>TypeError\<close> is caught by the function's own \<open>catch\<close>, which returns
  \<open>null\<close>.
\<close>

definition extractPhone_body :: "jsval \<Rightarrow> exn + jsval" where
  "extractPhone_body phoneData =
     (case select_text phoneData of
        JStr s \<Rightarrow>
          (let phone = add_country_code (strip_phone s)
           in if 10 \<le> length phone then Inr (JStr phone) else Inr JNull)
      | _ \<Rightarrow> Inl (TypeError ''phone.replace is not a function''))"

definition extractPhone :: "jsval \<Rightarrow> jsval" where
  "extractPhone phoneData =
     (case try_catch (extractPhone_body phoneData) (\<lambda>error. Inr JNull) of
        Inr v \<Rightarrow> v | Inl e \<Rightarrow> JNull)"

subsection \<open>Email\<close>

text \<open>
  \<open>\s\<close> of a JavaScript regular expression, on code units below 256: tab, line feed,
  vertical tab, form feed, carriage return, space and the no-break space \<open>0xA0\<close>.
\<close>

definition is_space :: "char \<Rightarrow> bool" where
  "is_space c = ((of_char c :: nat) \<in> {9, 10, 11, 12, 13, 32, 160})"

text \<open>
  The regular expressions of the service are sequences of character classes, each taken
  once or one or more times (\<open>+\<close>). \<open>rx_test r s\<close> is \<open>/^r$/.test(s)\<close>: some way
  of cutting \<open>s\<close> along \<open>r\<close> exists.
\<close>

datatype rx = One "char \<Rightarrow> bool" | Plus "char \<Rightarrow> bool"

fun rx_test :: "rx list \<Rightarrow> string \<Rightarrow> bool" where
  "rx_test [] s = (s = [])"
| "rx_test (One p # r) [] = False"
| "rx_test (One p # r) (c # cs) = (p c \<and> rx_test r cs)"
| "rx_test (Plus p # r) [] = False"
| "rx_test (Plus p # r) (c # cs) = (p c \<and> (rx_test r cs \<or> rx_test (Plus p # r) cs))"

text \<open>\<open>[^\s@]\<close>\<close>

definition not_space_at :: "char \<Rightarrow> bool" where
  "not_space_at c = (\<not> is_space c \<and> c \<noteq> CHR ''@'')"

text \<open>\<open>/^[^\s@]+@[^\s@]+\.[^\s@]+$/\<close>\<close>

definition emailRegex :: "rx list" where
  "emailRegex =
     [Plus not_space_at, One (\<lambda>c. c = CHR ''@''), Plus not_space_at,
      One (\<lambda>c. c = CHR ''.''), Plus not_space_at]"

text \<open>
  \<open>RegExp.prototype.test\<close> converts its argument with \<open>ToString\<close>; so do template
  literals. An array joins its elements with commas, \<open>null\<close> and \<open>undefined\<close>
  elements giving the empty string.
\<close>

fun join_comma :: "string list \<Rightarrow> string" where
  "join_comma [] = []"
| "join_comma [x] = x"
| "join_comma (x # y # r) = x @ '','' @ join_comma (y # r)"

fun toString :: "jsval \<Rightarrow> string" where
  "toString JUndefined = ''undefined''"
| "toString JNull = ''null''"
| "toString (JBool b) = (if b then ''true'' else ''false'')"
| "toString (JNum n) = (if n < 0 then ''-'' @ decimal (- n) else decimal n)"
| "toString (JStr s) = s"
| "toString (JArr xs) = join_comma (map (\<lambda>x. if nullish x then [] else toString x) xs)"
| "toString (JObj kvs) = ''[object Object]''"

definition extractEmail_body :: "jsval \<Rightarrow> exn + jsval" where
  "extractEmail_body emailData =
     (let email = select_text emailData
      in if rx_test emailRegex (toString email) then Inr email else Inr JNull)"

definition extractEmail :: "jsval \<Rightarrow> jsval" where
  "extractEmail emailData =
     (case try_catch (extractEmail_body emailData) (\<lambda>error. Inr JNull) of
        Inr v \<Rightarrow> v | Inl e \<Rightarrow> JNull)"

subsection \<open>Column roles\<close>

definition phoneKeywords :: "string list" where
  "phoneKeywords = [''phone'', ''telefone'', ''tel'', ''celular'', ''mobile'']"

definition emailKeywords :: "string list" where
  "emailKeywords = [''email'', ''mail'', ''e-mail'']"

definition companyKeywords :: "string list" where
  "companyKeywords = [''company'', ''empresa'', ''business'', ''organization'']"

definition isPhoneColumn :: "string \<Rightarrow> bool" where
  "isPhoneColumn columnId =
     list_ex (\<lambda>keyword. str_includes (toLowerCase columnId) keyword) phoneKeywords"

definition isEmailColumn :: "string \<Rightarrow> bool" where
  "isEmailColumn columnId =
     list_ex (\<lambda>keyword. str_includes (toLowerCase columnId) keyword) emailKeywords"

definition isCompanyColumn :: "string \<Rightarrow> bool" where
  "isCompanyColumn columnId =
     list_ex (\<lambda>keyword. str_includes (toLowerCase columnId) keyword) companyKeywords"

section \<open>Monday service: the CRM fetch\<close>

text \<open>
  What an \<open>axios\<close> request comes back with is an input of the model: either the
  promise resolves (\<open>Resolved d\<close>, with \<open>d\<close> the \<open>response.data\<close>), or it is
  rejected (\<open>Rejected r m\<close>, with \<open>r\<close> the \<open>error.response\<close>, \<open>undefined\<close> when
  there is none, and \<open>m\<close> the \<open>error.message\<close>) and the \<open>await\<close> throws.
\<close>

datatype axios_outcome = Resolved jsval | Rejected jsval string

text \<open>
  The \<open>itemData\<close> object literal of \<open>fetchItemDetails\<close>. \<open>item_columns\<close> is its
  \<open>columns\<close> object, only ever written and read by key. (Fields are prefixed:
  the lead record below has fields of the same names.)
\<close>

record itemData =
  item_id :: jsval
  item_name :: jsval
  item_phone :: jsval
  item_email :: jsval
  item_company :: jsval
  item_columns :: "string \<rightharpoonup> jsval"

text \<open>
  A \<open>forEach\<close> whose callback updates the enclosing object and may throw: the first
  exception ends the loop.
\<close>

fun forEach_exn :: "('s \<Rightarrow> 'a \<Rightarrow> exn + 's) \<Rightarrow> 'a list \<Rightarrow> 's \<Rightarrow> exn + 's" where
  "forEach_exn f [] s = Inr s"
| "forEach_exn f (x # xs) s =
     (case f s x of Inl e \<Rightarrow> Inl e | Inr s' \<Rightarrow> forEach_exn f xs s')"

text \<open>
  The callback over \<open>item.column_values\<close>. Reading \<open>column.id\<close> of \<open>null\<close> throws;
  so does \<open>columnId.toLowerCase()\<close> in \<open>isPhoneColumn\<close> when the id is not a
  string (the write to \<open>columns\<close> before it is lost with the exception).
\<close>

definition fetch_column :: "itemData \<Rightarrow> jsval \<Rightarrow> exn + itemData" where
  "fetch_column itemData column =
     (if nullish column
      then Inl (TypeError ''Cannot read properties of null (reading id)'')
      else case prop_of column ''id'' of
        JStr cid \<Rightarrow>
          (let text = prop_of column ''text'';
               d1 = itemData\<lparr>item_columns :=
                      (item_columns itemData)(cid \<mapsto> js_or text (prop_of column ''value''))\<rparr>;
               d2 = (if isPhoneColumn cid \<and> truthy text
                     then d1\<lparr>item_phone := extractPhone text\<rparr> else d1);
               d3 = (if isEmailColumn cid \<and> truthy text
                     then d2\<lparr>item_email := text\<rparr> else d2);
               d4 = (if isCompanyColumn cid \<and> truthy text
                     then d3\<lparr>item_company := text\<rparr> else d3)
           in Inr d4)
      | _ \<Rightarrow> Inl (TypeError ''columnId.toLowerCase is not a function''))"

definition fetchItemDetails_body :: "axios_outcome \<Rightarrow> exn + itemData option" where
  "fetchItemDetails_body reply =
     (case reply of
        Rejected r m \<Rightarrow> Inl (AxiosError r m)
      | Resolved d \<Rightarrow>
          (let items = prop_of (prop_of d ''data'') ''items''
           in if \<not> truthy d \<or> \<not> truthy (prop_of d ''data'') \<or> \<not> truthy items
                 \<or> prop_of items ''length'' = JNum 0
              then Inr None
              else
                (let item = prop_of items ''0''
                 in if nullish item
                    then Inl (TypeError ''Cannot read properties of undefined (reading id)'')
                    else
                      (let itemData = \<lparr>item_id = prop_of item ''id'',
                                       item_name = prop_of item ''name'',
                                       item_phone = JNull, item_email = JNull,
                                       item_company = JNull, item_columns = Map.empty\<rparr>;
                           column_values = prop_of item ''column_values''
                       in if truthy column_values
                          then (case column_values of
                                  JArr cols \<Rightarrow>
                                    (case forEach_exn fetch_column cols itemData of
                                       Inl e \<Rightarrow> Inl e
                                     | Inr itemData' \<Rightarrow> Inr (Some itemData'))
                                | _ \<Rightarrow> Inl (TypeError
                                    ''item.column_values.forEach is not a function''))
                          else Inr (Some itemData)))))"

text \<open>\<open>fetchItemDetails\<close>: the whole body is in a \<open>try\<close> whose \<open>catch\<close> returns \<open>null\<close>.\<close>

definition fetchItemDetails :: "axios_outcome \<Rightarrow> exn + itemData option" where
  "fetchItemDetails reply = try_catch (fetchItemDetails_body reply) (\<lambda>error. Inr None)"

section \<open>Monday service: the webhook\<close>

text \<open>
  The \<open>leadData\<close> object literal of \<open>processWebhook\<close> (the manual test builds the same
  object with fewer properties; the others are then \<open>undefined\<close>). \<open>lead_mcpData\<close>
  is the fetched \<open>itemData\<close>, or \<open>None\<close> when it is \<open>null\<close> or \<open>undefined\<close>: the
  code reads it through \<open>?.\<close> only.
\<close>

record lead =
  lead_id :: jsval
  lead_name :: jsval
  lead_boardId :: jsval
  lead_phone :: jsval
  lead_email :: jsval
  lead_company :: jsval
  lead_source :: jsval
  lead_createdAt :: jsval
  lead_eventType :: jsval
  lead_columnId :: jsval
  lead_columnValue :: jsval
  lead_mcpData :: "itemData option"

text \<open>
  The inputs of one request that come from outside: the replies of the two remote
  services and the clock (\<open>Date.now()\<close> and \<open>new Date().toISOString()\<close>; one reading
  serves the whole request).
\<close>

record world =
  crm_reply :: axios_outcome
  provider_reply :: axios_outcome
  date_now :: int
  date_iso :: string

text \<open>\<open>itemDetails?.f\<close>\<close>

definition item_opt :: "(itemData \<Rightarrow> jsval) \<Rightarrow> itemData option \<Rightarrow> jsval" where
  "item_opt f itemDetails = (case itemDetails of None \<Rightarrow> JUndefined | Some d \<Rightarrow> f d)"

text \<open>
  The callback over \<open>Object.keys(columnValues)\<close>: three independent \<open>if\<close>
  statements, each guarded by its own keyword test and by the truthiness of the value.
\<close>

definition webhook_column :: "jsval \<Rightarrow> lead \<Rightarrow> string \<Rightarrow> lead" where
  "webhook_column columnValues leadData columnId =
     (let columnValue = prop_of columnValues columnId;
          l1 = (if isPhoneColumn columnId \<and> truthy columnValue
                then leadData\<lparr>lead_phone := extractPhone columnValue\<rparr> else leadData);
          l2 = (if isEmailColumn columnId \<and> truthy columnValue
                then l1\<lparr>lead_email := extractEmail columnValue\<rparr> else l1);
          l3 = (if isCompanyColumn columnId \<and> truthy columnValue
                then l2\<lparr>lead_company :=
                       js_or (js_or (prop_of columnValue ''text'') (prop_of columnValue ''value''))
                         columnValue\<rparr>
                else l2)
      in l3)"

definition processWebhook_body :: "world \<Rightarrow> jsval \<Rightarrow> exn + lead option" where
  "processWebhook_body w webhookData =
     (if nullish webhookData
      then Inl (TypeError ''Cannot destructure property event of webhookData'')
      else
        (let event = prop_of webhookData ''event'';
             pulseName = prop_of webhookData ''pulseName'';
             pulseId = prop_of webhookData ''pulseId'';
             boardId = prop_of webhookData ''boardId'';
             columnValues = prop_of webhookData ''columnValues'';
             eventType = opt event ''type'';
             eventData = opt event ''data'';
             itemId = js_or (js_or (opt eventData ''pulse_id'') (opt event ''pulseId'')) pulseId;
             boardIdFromEvent =
               js_or (js_or (opt eventData ''board_id'') (opt event ''boardId'')) boardId;
             columnId = js_or (opt eventData ''column_id'') (opt event ''columnId'');
             columnValue = js_or (opt eventData ''value'') (opt event ''value'');
             itemName = js_or (opt event ''pulseName'') pulseName;
             isCreateEvent = (eventType = JStr ''create_pulse'');
             isChangeEvent = (eventType = JStr ''change_column_value''
                              \<or> eventType = JStr ''update_column_value'')
         in if \<not> isCreateEvent \<and> \<not> isChangeEvent then Inr None
            else
              (case fetchItemDetails (crm_reply w) of
                 Inl e \<Rightarrow> Inl e
               | Inr itemDetails \<Rightarrow>
                   (let leadData =
                          \<lparr>lead_id = js_or itemId (JStr (''lead-'' @ decimal (date_now w))),
                           lead_name = js_or (js_or itemName (item_opt item_name itemDetails))
                                         (JStr ''Lead without name''),
                           lead_boardId = boardIdFromEvent,
                           lead_phone = js_or (item_opt item_phone itemDetails) JNull,
                           lead_email = js_or (item_opt item_email itemDetails) JNull,
                           lead_company = js_or (item_opt item_company itemDetails) JNull,
                           lead_source = JStr ''monday.com'',
                           lead_createdAt = JStr (date_iso w),
                           lead_eventType = eventType,
                           lead_columnId = columnId,
                           lead_columnValue = columnValue,
                           lead_mcpData = itemDetails\<rparr>
                    in if truthy columnValues
                       then Inr (Some (foldl (webhook_column columnValues) leadData
                                         (Object_keys columnValues)))
                       else Inr (Some leadData)))))"

text \<open>\<open>processWebhook\<close>: the whole body is in a \<open>try\<close> whose \<open>catch\<close> returns \<open>null\<close>.\<close>

definition processWebhook :: "world \<Rightarrow> jsval \<Rightarrow> exn + lead option" where
  "processWebhook w webhookData =
     try_catch (processWebhook_body w webhookData) (\<lambda>error. Inr None)"

section \<open>ElevenLabs service\<close>

text \<open>
  The environment variables read by the service; \<open>process.env.X\<close> is a string or
  \<open>undefined\<close>.
\<close>

record config =
  apiKey :: "string option"
  agentId :: "string option"
  phoneNumberId :: "string option"

definition env_val :: "string option \<Rightarrow> jsval" where
  "env_val x = (case x of None \<Rightarrow> JUndefined | Some s \<Rightarrow> JStr s)"

record variables =
  customer_name :: jsval
  company_name :: jsval

record callData =
  agent_id :: jsval
  agent_phone_number_id :: jsval
  to_number :: jsval
  dynamic_variables :: variables

text \<open>\<open>leadData.mcpData?.columns?.lead_company\<close>\<close>

definition mcp_lead_company :: "lead \<Rightarrow> jsval" where
  "mcp_lead_company leadData =
     (case lead_mcpData leadData of
        None \<Rightarrow> JUndefined
      | Some d \<Rightarrow> (case item_columns d ''lead_company'' of
                    None \<Rightarrow> JUndefined | Some v \<Rightarrow> v))"

definition prepareCallData :: "config \<Rightarrow> lead \<Rightarrow> callData" where
  "prepareCallData cfg leadData =
     (let customerName = js_or (lead_name leadData) (JStr ''Customer'');
          companyName = js_or (js_or (mcp_lead_company leadData) (lead_company leadData))
                          (JStr ''your restaurant'')
      in \<lparr>agent_id = env_val (agentId cfg),
          agent_phone_number_id = js_or (env_val (phoneNumberId cfg)) (JStr ''default_phone_id''),
          to_number = lead_phone leadData,
          dynamic_variables = \<lparr>customer_name = customerName, company_name = companyName\<rparr>\<rparr>)"

text \<open>
  \<open>makeAPICall\<close> sends the request (the second component lists what was sent to the
  provider) and wraps a rejection in a new \<open>Error\<close>.
\<close>

definition makeAPICall :: "world \<Rightarrow> callData \<Rightarrow> (exn + jsval) \<times> callData list" where
  "makeAPICall w cd =
     (try_catch
        (case provider_reply w of
           Resolved d \<Rightarrow> Inr d
         | Rejected r m \<Rightarrow> Inl (AxiosError r m))
        (\<lambda>error.
           Inl (Error (''ElevenLabs API Error: '' @ toString (opt (response_of error) ''status'')
                  @ '' - ''
                  @ toString (js_or (opt (opt (response_of error) ''data'') ''detail'')
                                (JStr (message error)))))),
      [cd])"

definition simulateCall :: "world \<Rightarrow> lead \<Rightarrow> jsval" where
  "simulateCall w leadData =
     JObj [(''success'', JBool True),
           (''call_id'', JStr (''sim_'' @ decimal (date_now w))),
           (''status'', JStr ''simulated''),
           (''leadId'', lead_id leadData),
           (''phone'', lead_phone leadData),
           (''timestamp'', JStr (date_iso w)),
           (''simulation'', JBool True),
           (''message'', JStr ''Call simulated - ElevenLabs credentials not configured'')]"

definition initiateCall_body :: "config \<Rightarrow> world \<Rightarrow> lead \<Rightarrow> (exn + jsval) \<times> callData list" where
  "initiateCall_body cfg w leadData =
     (if \<not> truthy (env_val (apiKey cfg)) \<or> \<not> truthy (env_val (agentId cfg))
      then (Inl (Error ''ElevenLabs credentials not configured''), [])
      else
        (let callData = prepareCallData cfg leadData;
             (response, sent) = makeAPICall w callData
         in ((case response of
                Inl e \<Rightarrow> Inl e
              | Inr d \<Rightarrow>
                  (case get_prop d ''call_id'' of
                     Inl e \<Rightarrow> Inl e
                   | Inr call_id \<Rightarrow>
                       Inr (JObj [(''success'', JBool True),
                                  (''call_id'', js_or call_id (prop_of d ''id'')),
                                  (''status'', js_or (prop_of d ''status'') (JStr ''initiated'')),
                                  (''leadId'', lead_id leadData),
                                  (''phone'', lead_phone leadData),
                                  (''timestamp'', JStr (date_iso w))]))),
             sent)))"

text \<open>
  \<open>initiateCall\<close>: the \<open>catch\<close> answers a configuration error with the simulated
  call and throws every other error again.
\<close>

definition initiateCall :: "config \<Rightarrow> world \<Rightarrow> lead \<Rightarrow> (exn + jsval) \<times> callData list" where
  "initiateCall cfg w leadData =
     (let (result, sent) = initiateCall_body cfg w leadData
      in (try_catch result
            (\<lambda>error. if str_includes (message error) ''not configured''
                     then Inr (simulateCall w leadData) else Inl error),
          sent))"

section \<open>The server\<close>

text \<open>
  A handler answers with a status and a JSON body (\<open>res.json\<close> alone answers 200).
  An exception thrown outside the handler's \<open>try\<close> is left to the framework. The
  second component of a handler's result lists the requests sent to the calling provider.
\<close>

datatype response = Response nat jsval

text \<open>
  The messages of the two client errors carry accented letters (a, e and o with an
  acute accent): the code units 225, 233 and 243.
\<close>

definition invalid_webhook :: string where
  "invalid_webhook = ''Dados inv'' @ [char_of (225 :: nat)] @ ''lidos do webhook''"

definition phone_required :: string where
  "phone_required =
     ''Telefone '' @ [char_of (233 :: nat)] @ '' obrigat'' @ [char_of (243 :: nat)] @ ''rio''"

text \<open>\<open>POST /webhook/monday\<close>\<close>

definition webhook_monday :: "config \<Rightarrow> world \<Rightarrow> jsval \<Rightarrow> (exn + response) \<times> callData list" where
  "webhook_monday cfg w body =
     (case get_prop body ''challenge'' of
        Inl e \<Rightarrow> (Inl e, [])
      | Inr challenge \<Rightarrow>
          if truthy challenge
          then (Inr (Response 200 (JObj [(''challenge'', challenge)])), [])
          else
            (case processWebhook w body of
               Inl error \<Rightarrow>
                 (Inr (Response 500 (JObj [(''error'', JStr ''Erro interno do servidor''),
                                           (''message'', JStr (message error))])), [])
             | Inr None \<Rightarrow>
                 (Inr (Response 400
                    (JObj [(''error'', JStr invalid_webhook)])), [])
             | Inr (Some leadData) \<Rightarrow>
                 if \<not> truthy (lead_phone leadData)
                 then (Inr (Response 200
                         (JObj [(''message'', JStr ''Lead sem telefone, ignorado'')])), [])
                 else
                   (let (callResult, sent) = initiateCall cfg w leadData
                    in ((case callResult of
                           Inl error \<Rightarrow>
                             Inr (Response 500
                               (JObj [(''error'', JStr ''Erro interno do servidor''),
                                      (''message'', JStr (message error))]))
                         | Inr r \<Rightarrow>
                             Inr (Response 200
                               (JObj [(''success'', JBool True),
                                      (''message'', JStr ''Chamada iniciada com sucesso''),
                                      (''leadId'', lead_id leadData),
                                      (''callId'', prop_of r ''call_id'')]))),
                        sent))))"

text \<open>\<open>POST /test/call\<close>; here the destructuring of \<open>req.body\<close> is inside the \<open>try\<close>.\<close>

definition test_call :: "config \<Rightarrow> world \<Rightarrow> jsval \<Rightarrow> (exn + response) \<times> callData list" where
  "test_call cfg w body =
     (if nullish body
      then (Inr (Response 500
                   (JObj [(''error'', JStr ''Erro ao testar chamada''),
                          (''message'', JStr ''Cannot destructure property phone of req.body'')])),
            [])
      else
        (let phone = prop_of body ''phone'';
             name = prop_of body ''name''
         in if \<not> truthy phone
            then (Inr (Response 400
                         (JObj [(''error'', JStr phone_required)])), [])
            else
              (let testLead =
                     \<lparr>lead_id = JStr (''test-'' @ decimal (date_now w)),
                      lead_name = js_or name (JStr ''Teste''),
                      lead_boardId = JUndefined,
                      lead_phone = phone,
                      lead_email = JUndefined,
                      lead_company = JUndefined,
                      lead_source = JStr ''manual-test'',
                      lead_createdAt = JUndefined,
                      lead_eventType = JUndefined,
                      lead_columnId = JUndefined,
                      lead_columnValue = JUndefined,
                      lead_mcpData = None\<rparr>;
                   (callResult, sent) = initiateCall cfg w testLead
               in ((case callResult of
                      Inl error \<Rightarrow>
                        Inr (Response 500
                          (JObj [(''error'', JStr ''Erro ao testar chamada''),
                                 (''message'', JStr (message error))]))
                    | Inr r \<Rightarrow>
                        Inr (Response 200
                          (JObj [(''success'', JBool True),
                                 (''message'', JStr ''Chamada de teste iniciada''),
                                 (''callResult'', r)]))),
                   sent))))"

section \<open>Notions used in the statements\<close>

text \<open>The event type token \<open>event?.type\<close> of a payload, and the three recognised tokens.\<close>

definition eventType_of :: "jsval \<Rightarrow> jsval" where
  "eventType_of webhookData = opt (prop_of webhookData ''event'') ''type''"

definition recognized :: "jsval \<Rightarrow> bool" where
  "recognized webhookData =
     (eventType_of webhookData = JStr ''create_pulse''
      \<or> eventType_of webhookData = JStr ''change_column_value''
      \<or> eventType_of webhookData = JStr ''update_column_value'')"

text \<open>What the CRM fetch of a request returned (\<open>None\<close> for \<open>null\<close>).\<close>

definition fetched :: "world \<Rightarrow> itemData option" where
  "fetched w = (case fetchItemDetails (crm_reply w) of Inr r \<Rightarrow> r | Inl e \<Rightarrow> None)"

text \<open>The record a call of \<open>processWebhook\<close> returned, if it returned one.\<close>

definition returned :: "exn + 'a option \<Rightarrow> 'a option" where
  "returned r = (case r of Inr (Some l) \<Rightarrow> Some l | _ \<Rightarrow> None)"

text \<open>
  The value of the last column of the webhook's column map, in key order, whose
  identifier has the role and whose value is truthy: the one whose assignment in the
  loop of \<open>processWebhook\<close> is not overwritten.
\<close>

definition matched_value :: "(string \<Rightarrow> bool) \<Rightarrow> jsval \<Rightarrow> jsval option" where
  "matched_value is_role columnValues =
     (if truthy columnValues
      then (case rev (filter (\<lambda>k. is_role k \<and> truthy (prop_of columnValues k))
                        (Object_keys columnValues)) of
              [] \<Rightarrow> None
            | k # ks \<Rightarrow> Some (prop_of columnValues k))
      else None)"

subsection \<open>The specification's wording, for comparison with the code\<close>

text \<open>
  Phone normalisation as the specification words it: only a leading \<open>+\<close> survives the
  stripping (a \<open>+\<close> that no digit and no other \<open>+\<close> precedes), and the prefix is
  added when the stripped text has exactly 10 or 11 digits and no leading \<open>+\<close>.
\<close>

definition spec_strip :: "string \<Rightarrow> string" where
  "spec_strip s =
     (case dropWhile (\<lambda>c. \<not> is_digit c \<and> c \<noteq> CHR ''+'') s of
        [] \<Rightarrow> []
      | c # r \<Rightarrow> (if c = CHR ''+'' then c # filter is_digit r else filter is_digit (c # r)))"

definition spec_normalizePhone :: "string \<Rightarrow> string option" where
  "spec_normalizePhone s =
     (let p = spec_strip s;
          n = length (filter is_digit p);
          q = (if (n = 10 \<or> n = 11) \<and> \<not> startsWith p ''+'' then ''+55'' @ p else p)
      in if 10 \<le> length q then Some q else None)"

text \<open>
  Column classification as the specification words it: the first role, in the order
  phone, email, company, whose keyword set has a case-insensitive substring of the
  identifier.
\<close>

datatype role = Phone | Email | Company | NoRole

definition spec_classifyColumn :: "string \<Rightarrow> role" where
  "spec_classifyColumn identifier =
     (if list_ex (\<lambda>keyword. str_includes (toLowerCase identifier) keyword) phoneKeywords
      then Phone
      else if list_ex (\<lambda>keyword. str_includes (toLowerCase identifier) keyword) emailKeywords
      then Email
      else if list_ex (\<lambda>keyword. str_includes (toLowerCase identifier) keyword) companyKeywords
      then Company
      else NoRole)"

text \<open>
  The email pattern as the specification words it, \<open>local@domain.tld\<close>: no whitespace,
  exactly one \<open>@\<close>, and a \<open>.\<close> after the \<open>@\<close>, with \<open>local\<close>, \<open>domain\<close> and
  \<open>tld\<close> not empty: the \<open>@\<close> stands at some position \<open>i\<close> and the \<open>.\<close> at some
  position \<open>j\<close>, with a character before \<open>i\<close>, one between them and one after \<open>j\<close>.
\<close>

definition spec_email_pattern :: "string \<Rightarrow> bool" where
  "spec_email_pattern s =
     ((\<forall>c\<in>set s. \<not> is_space c)
      \<and> count_list s (CHR ''@'') = 1
      \<and> list_ex (\<lambda>i. list_ex (\<lambda>j.
            s ! i = CHR ''@'' \<and> s ! j = CHR ''.'' \<and> 0 < i \<and> i + 1 < j \<and> j + 1 < length s)
          [0..<length s]) [0..<length s])"

subsection \<open>Sample inputs\<close>

text \<open>A CRM reply with one item that has a phone, an email and a company column.\<close>

definition sample_crm :: jsval where
  "sample_crm =
     JObj [(''data'', JObj [(''items'', JArr [JObj
       [(''id'', JStr ''7''), (''name'', JStr ''Ana''),
        (''column_values'', JArr
           [JObj [(''id'', JStr ''phone''), (''text'', JStr ''11988887777'')],
            JObj [(''id'', JStr ''email''), (''text'', JStr ''ana@crm.com'')],
            JObj [(''id'', JStr ''lead_company''), (''text'', JStr ''Padaria Ana'')]])]])])]"

definition sample_world :: world where
  "sample_world =
     \<lparr>crm_reply = Resolved sample_crm,
      provider_reply = Resolved (JObj [(''call_id'', JStr ''c1'')]),
      date_now = 1700000000000, date_iso = ''2023-11-14T22:13:20.000Z''\<rparr>"

text \<open>The same request when the CRM cannot be reached.\<close>

definition offline_world :: world where
  "offline_world = sample_world\<lparr>crm_reply := Rejected JUndefined ''connect ECONNREFUSED''\<rparr>"

text \<open>An item-created event with the given column map.\<close>

definition sample_event :: "jsval \<Rightarrow> jsval" where
  "sample_event columnValues =
     JObj [(''event'', JObj [(''type'', JStr ''create_pulse''), (''pulseId'', JNum 7)]),
           (''columnValues'', columnValues)]"

definition unknown_event :: jsval where
  "unknown_event = JObj [(''event'', JObj [(''type'', JStr ''unknown_event'')])]"

text \<open>A configuration without the API key, and a lead as the manual test builds it.\<close>

definition sample_config :: config where
  "sample_config = \<lparr>apiKey = None, agentId = Some ''agent_1'', phoneNumberId = None\<rparr>"

definition sample_lead :: lead where
  "sample_lead =
     \<lparr>lead_id = JStr ''test-1700000000000'', lead_name = JStr ''Ana'',
      lead_boardId = JUndefined, lead_phone = JStr ''+5511988887777'',
      lead_email = JUndefined, lead_company = JUndefined,
      lead_source = JStr ''manual-test'', lead_createdAt = JUndefined,
      lead_eventType = JUndefined, lead_columnId = JUndefined,
      lead_columnValue = JUndefined, lead_mcpData = None\<rparr>"

section \<open>Phone normalisation\<close>

lemma extractPhone_body_string:
  "extractPhone_body d =
     (case select_text d of
        JStr s \<Rightarrow>
          (let p = strip_phone s
           in if length p < 10 then Inr JNull
              else if length p \<le> 11 \<and> \<not> startsWith p ''+'' then Inr (JStr (''+55'' @ p))
              else Inr (JStr p))
      | _ \<Rightarrow> Inl (TypeError ''phone.replace is not a function''))"
  unfolding extractPhone_body_def
  by (cases "select_text d") (auto simp: Let_def add_country_code_def)

lemma strip_phone_filter: "strip_phone s = filter (\<lambda>c. c \<in> set ''0123456789+'') s"
  unfolding strip_phone_def is_digit_def by (rule filter_cong) auto

lemma extractPhone_cases:
  "extractPhone d =
     (case select_text d of
        JStr s \<Rightarrow>
          (let p = strip_phone s
           in if length p < 10 then JNull
              else if length p \<le> 11 \<and> \<not> startsWith p ''+'' then JStr (''+55'' @ p)
              else JStr p)
      | _ \<Rightarrow> JNull)"
  unfolding extractPhone_def extractPhone_body_string try_catch_def
  by (cases "select_text d") (simp_all add: Let_def)

text \<open>
  C3, as the code has it. The value worked on is the input itself when it is a string,
  else its truthy \<open>.text\<close>, else its truthy \<open>.value\<close>, else the empty string; when that
  value is not a string the result is absent. From a string, every code unit other than
  a digit or a \<open>+\<close> is removed, wherever the \<open>+\<close> stands; \<open>+55\<close> is put in front
  exactly when what is left has length 10 or 11 (counting every \<open>+\<close> kept) and does not
  start with \<open>+\<close>; the result is returned when its length is at least 10 and is absent
  otherwise. \<open>"11999999999"\<close> gives \<open>"+5511999999999"\<close> and \<open>"999999999"\<close> is absent.
\<close>

theorem extractPhone_keeps_every_plus:
  "extractPhone d =
     (case select_text d of
        JStr s \<Rightarrow>
          (let p = filter (\<lambda>c. c \<in> set ''0123456789+'') s
           in if length p < 10 then JNull
              else if length p \<le> 11 \<and> \<not> startsWith p ''+'' then JStr (''+55'' @ p)
              else JStr p)
      | _ \<Rightarrow> JNull)
   \<and> extractPhone (JStr ''11999999999'') = JStr ''+5511999999999''
   \<and> extractPhone (JStr ''999999999'') = JNull"
proof -
  have a: "extractPhone (JStr ''11999999999'') = JStr ''+5511999999999''"
    by code_simp
  have b: "extractPhone (JStr ''999999999'') = JNull"
    by code_simp
  have g: "extractPhone d =
     (case select_text d of
        JStr s \<Rightarrow>
          (let p = filter (\<lambda>c. c \<in> set ''0123456789+'') s
           in if length p < 10 then JNull
              else if length p \<le> 11 \<and> \<not> startsWith p ''+'' then JStr (''+55'' @ p)
              else JStr p)
      | _ \<Rightarrow> JNull)"
    unfolding extractPhone_cases strip_phone_filter ..
  from g a b show ?thesis by (intro conjI)
qed

text \<open>
  C3 as the specification words it fails where a \<open>+\<close> stands between digits: the code
  keeps it and counts it, the wording drops it.
\<close>

theorem extractPhone_inner_plus_counterexample:
  "extractPhone (JStr ''11+99999999'') = JStr ''+5511+99999999''
   \<and> spec_normalizePhone ''11+99999999'' = Some ''+551199999999''"
  by code_simp

section \<open>The webhook: what is returned\<close>

lemma fetchItemDetails_returns: "\<exists>r. fetchItemDetails reply = Inr r"
  by (simp add: fetchItemDetails_def try_catch_def split: sum.splits)

lemma fetchItemDetails_fetched: "fetchItemDetails (crm_reply w) = Inr (fetched w)"
  using fetchItemDetails_returns [of "crm_reply w"] by (auto simp: fetched_def)

lemma webhook_column_fields:
  "lead_phone (webhook_column cv l k) =
     (if isPhoneColumn k \<and> truthy (prop_of cv k) then extractPhone (prop_of cv k)
      else lead_phone l)"
  "lead_email (webhook_column cv l k) =
     (if isEmailColumn k \<and> truthy (prop_of cv k) then extractEmail (prop_of cv k)
      else lead_email l)"
  "lead_company (webhook_column cv l k) =
     (if isCompanyColumn k \<and> truthy (prop_of cv k)
      then js_or (js_or (prop_of (prop_of cv k) ''text'') (prop_of (prop_of cv k) ''value''))
             (prop_of cv k)
      else lead_company l)"
  by (auto simp: webhook_column_def Let_def)

text \<open>After the loop a field holds what the last matching column gave it.\<close>

lemma foldl_phone:
  "lead_phone (foldl (webhook_column cv) l ks) =
     (case rev (filter (\<lambda>k. isPhoneColumn k \<and> truthy (prop_of cv k)) ks) of
        [] \<Rightarrow> lead_phone l | k # r \<Rightarrow> extractPhone (prop_of cv k))"
  by (induction ks rule: rev_induct) (simp_all add: webhook_column_fields)

lemma foldl_email:
  "lead_email (foldl (webhook_column cv) l ks) =
     (case rev (filter (\<lambda>k. isEmailColumn k \<and> truthy (prop_of cv k)) ks) of
        [] \<Rightarrow> lead_email l | k # r \<Rightarrow> extractEmail (prop_of cv k))"
  by (induction ks rule: rev_induct) (simp_all add: webhook_column_fields)

lemma foldl_company:
  "lead_company (foldl (webhook_column cv) l ks) =
     (case rev (filter (\<lambda>k. isCompanyColumn k \<and> truthy (prop_of cv k)) ks) of
        [] \<Rightarrow> lead_company l
      | k # r \<Rightarrow> js_or (js_or (prop_of (prop_of cv k) ''text'') (prop_of (prop_of cv k) ''value''))
                   (prop_of cv k))"
  by (induction ks rule: rev_induct) (simp_all add: webhook_column_fields)

lemma processWebhook_phone:
  assumes "processWebhook w d = Inr (Some l)"
  shows "lead_phone l =
     (case matched_value isPhoneColumn (prop_of d ''columnValues'') of
        None \<Rightarrow> js_or (item_opt item_phone (fetched w)) JNull
      | Some v \<Rightarrow> extractPhone v)"
  using assms
  unfolding processWebhook_def processWebhook_body_def try_catch_def
  by (auto simp: Let_def fetchItemDetails_fetched foldl_phone matched_value_def
           split: if_splits list.splits)

lemma processWebhook_email:
  assumes "processWebhook w d = Inr (Some l)"
  shows "lead_email l =
     (case matched_value isEmailColumn (prop_of d ''columnValues'') of
        None \<Rightarrow> js_or (item_opt item_email (fetched w)) JNull
      | Some v \<Rightarrow> extractEmail v)"
  using assms
  unfolding processWebhook_def processWebhook_body_def try_catch_def
  by (auto simp: Let_def fetchItemDetails_fetched foldl_email matched_value_def
           split: if_splits list.splits)

lemma processWebhook_company:
  assumes "processWebhook w d = Inr (Some l)"
  shows "lead_company l =
     (case matched_value isCompanyColumn (prop_of d ''columnValues'') of
        None \<Rightarrow> js_or (item_opt item_company (fetched w)) JNull
      | Some v \<Rightarrow> js_or (js_or (prop_of v ''text'') (prop_of v ''value'')) v)"
  using assms
  unfolding processWebhook_def processWebhook_body_def try_catch_def
  by (auto simp: Let_def fetchItemDetails_fetched foldl_company matched_value_def
           split: if_splits list.splits)

lemma processWebhook_recognized:
  "processWebhook w d = Inr (Some l) \<Longrightarrow> recognized d"
  unfolding processWebhook_def processWebhook_body_def try_catch_def recognized_def
    eventType_of_def
  by (auto simp: Let_def fetchItemDetails_fetched split: if_splits)

lemma recognized_processWebhook:
  "recognized d \<Longrightarrow> \<exists>l. processWebhook w d = Inr (Some l)"
  unfolding processWebhook_def processWebhook_body_def try_catch_def recognized_def
    eventType_of_def
  by (cases d) (auto simp: Let_def fetchItemDetails_fetched opt_def split: if_splits)

lemma not_recognized_processWebhook:
  "\<not> recognized d \<Longrightarrow> processWebhook w d = Inr None"
  unfolding processWebhook_def processWebhook_body_def try_catch_def recognized_def
    eventType_of_def
  by (auto simp: Let_def fetchItemDetails_fetched split: if_splits)

lemma recognized_sample_event: "recognized (sample_event cv)"
  by (simp add: recognized_def eventType_of_def sample_event_def opt_def)

text \<open>
  C1. For every webhook event accepted by the Normalizer, the phone, email and company
  of the lead record are seeded from the CRM fetch result (\<open>null\<close> where the fetch
  gave nothing), and a directly matched webhook column (a truthy value under an
  identifier of that role) is applied afterwards and replaces the fetched value.
\<close>

theorem webhook_columns_override_fetch:
  assumes "processWebhook w d = Inr (Some l)"
  shows "lead_phone l =
           (case matched_value isPhoneColumn (prop_of d ''columnValues'') of
              None \<Rightarrow> js_or (item_opt item_phone (fetched w)) JNull
            | Some v \<Rightarrow> extractPhone v)
       \<and> lead_email l =
           (case matched_value isEmailColumn (prop_of d ''columnValues'') of
              None \<Rightarrow> js_or (item_opt item_email (fetched w)) JNull
            | Some v \<Rightarrow> extractEmail v)
       \<and> lead_company l =
           (case matched_value isCompanyColumn (prop_of d ''columnValues'') of
              None \<Rightarrow> js_or (item_opt item_company (fetched w)) JNull
            | Some v \<Rightarrow> js_or (js_or (prop_of v ''text'') (prop_of v ''value'')) v)"
  using processWebhook_phone [OF assms] processWebhook_email [OF assms]
    processWebhook_company [OF assms]
  by (intro conjI)

text \<open>
  The CRM knows Ana's phone, email and company; the webhook brings another phone under
  \<open>telefone\<close>. The record has the webhook's phone and the CRM's email and company.
\<close>

theorem webhook_columns_override_fetch_witness:
  "map_option lead_phone
     (returned (processWebhook sample_world
        (sample_event (JObj [(''telefone'', JStr ''21977776666'')]))))
     = Some (JStr ''+5521977776666'')
   \<and> map_option lead_email
     (returned (processWebhook sample_world
        (sample_event (JObj [(''telefone'', JStr ''21977776666'')]))))
     = Some (JStr ''ana@crm.com'')
   \<and> map_option lead_company
     (returned (processWebhook sample_world
        (sample_event (JObj [(''telefone'', JStr ''21977776666'')]))))
     = Some (JStr ''Padaria Ana'')
   \<and> item_opt item_phone (fetched sample_world) = JStr ''+5511988887777''"
proof -
  let ?d = "sample_event (JObj [(''telefone'', JStr ''21977776666'')])"
  obtain l where l: "processWebhook sample_world ?d = Inr (Some l)"
    using recognized_processWebhook [OF recognized_sample_event] by blast
  have p: "(case matched_value isPhoneColumn (prop_of ?d ''columnValues'') of
              None \<Rightarrow> js_or (item_opt item_phone (fetched sample_world)) JNull
            | Some v \<Rightarrow> extractPhone v) = JStr ''+5521977776666''"
    by code_simp
  have e: "(case matched_value isEmailColumn (prop_of ?d ''columnValues'') of
              None \<Rightarrow> js_or (item_opt item_email (fetched sample_world)) JNull
            | Some v \<Rightarrow> extractEmail v) = JStr ''ana@crm.com''"
    by code_simp
  have c: "(case matched_value isCompanyColumn (prop_of ?d ''columnValues'') of
              None \<Rightarrow> js_or (item_opt item_company (fetched sample_world)) JNull
            | Some v \<Rightarrow> js_or (js_or (prop_of v ''text'') (prop_of v ''value'')) v)
           = JStr ''Padaria Ana''"
    by code_simp
  have f: "item_opt item_phone (fetched sample_world) = JStr ''+5511988887777''"
    by code_simp
  from webhook_columns_override_fetch [OF l] p e c f show ?thesis
    by (simp add: l returned_def)
qed

text \<open>
  C9, as the code has it. The loop runs over the whole column map, so the field holds
  what the last truthy column of its role gave. When that last phone column (email
  column) fails normalisation, the phone (email) of the returned record is absent,
  whatever the CRM fetch supplied.
\<close>

theorem failed_last_column_clears_field:
  assumes "processWebhook w d = Inr (Some l)"
  shows "(matched_value isPhoneColumn (prop_of d ''columnValues'') = Some v
            \<and> extractPhone v = JNull \<longrightarrow> lead_phone l = JNull)
       \<and> (matched_value isEmailColumn (prop_of d ''columnValues'') = Some v'
            \<and> extractEmail v' = JNull \<longrightarrow> lead_email l = JNull)"
  using processWebhook_phone [OF assms] processWebhook_email [OF assms]
  by auto

text \<open>
  The CRM knows a valid phone and email for Ana; the webhook's \<open>phone\<close> and \<open>email\<close>
  columns hold values that do not normalise. Both fields of the record are absent.
\<close>

theorem failed_last_column_clears_field_witness:
  "item_opt item_phone (fetched sample_world) = JStr ''+5511988887777''
   \<and> item_opt item_email (fetched sample_world) = JStr ''ana@crm.com''
   \<and> map_option lead_phone
       (returned (processWebhook sample_world
          (sample_event (JObj [(''phone'', JStr ''123''), (''email'', JStr ''nobody'')]))))
       = Some JNull
   \<and> map_option lead_email
       (returned (processWebhook sample_world
          (sample_event (JObj [(''phone'', JStr ''123''), (''email'', JStr ''nobody'')]))))
       = Some JNull"
proof -
  let ?d = "sample_event (JObj [(''phone'', JStr ''123''), (''email'', JStr ''nobody'')])"
  obtain l where l: "processWebhook sample_world ?d = Inr (Some l)"
    using recognized_processWebhook [OF recognized_sample_event] by blast
  have p: "matched_value isPhoneColumn (prop_of ?d ''columnValues'') = Some (JStr ''123'')
           \<and> extractPhone (JStr ''123'') = JNull"
    by code_simp
  have e: "matched_value isEmailColumn (prop_of ?d ''columnValues'') = Some (JStr ''nobody'')
           \<and> extractEmail (JStr ''nobody'') = JNull"
    by code_simp
  have f: "item_opt item_phone (fetched sample_world) = JStr ''+5511988887777''
           \<and> item_opt item_email (fetched sample_world) = JStr ''ana@crm.com''"
    by code_simp
  from failed_last_column_clears_field [OF l, of "JStr ''123''" "JStr ''nobody''"] p e f
  show ?thesis
    by (simp add: l returned_def)
qed

text \<open>
  C9 as stated fails when a later column of the same role normalises: here \<open>phone\<close>
  is truthy, has the phone role and does not normalise, yet the record has the phone
  of \<open>telefone\<close>.
\<close>

theorem later_phone_column_counterexample:
  "isPhoneColumn ''phone'' \<and> truthy (JStr ''123'') \<and> extractPhone (JStr ''123'') = JNull
   \<and> map_option lead_phone
       (returned (processWebhook offline_world
          (sample_event
             (JObj [(''phone'', JStr ''123''), (''telefone'', JStr ''11999999999'')]))))
       = Some (JStr ''+5511999999999'')"
  by code_simp

text \<open>The keyword tests: a keyword occurs somewhere in the lower-cased identifier.\<close>

lemma startsWith_iff: "startsWith s p \<longleftrightarrow> (\<exists>b. s = p @ b)"
  by (induction s p rule: startsWith.induct) auto

lemma str_includes_iff: "str_includes s k \<longleftrightarrow> (\<exists>a b. s = a @ k @ b)"
proof (induction s)
  case Nil
  then show ?case by simp
next
  case (Cons c cs)
  have "(\<exists>a b. c # cs = a @ k @ b) \<longleftrightarrow> (\<exists>b. c # cs = k @ b) \<or> (\<exists>a b. cs = a @ k @ b)"
  proof
    assume "\<exists>a b. c # cs = a @ k @ b"
    then obtain a b where ab: "c # cs = a @ k @ b" by blast
    show "(\<exists>b. c # cs = k @ b) \<or> (\<exists>a b. cs = a @ k @ b)"
    proof (cases a)
      case Nil
      with ab show ?thesis by auto
    next
      case (Cons x a')
      with ab have "cs = a' @ k @ b" by simp
      then show ?thesis by blast
    qed
  next
    assume "(\<exists>b. c # cs = k @ b) \<or> (\<exists>a b. cs = a @ k @ b)"
    then show "\<exists>a b. c # cs = a @ k @ b"
    proof
      assume "\<exists>b. c # cs = k @ b"
      then obtain b where "c # cs = [] @ k @ b" by auto
      then show ?thesis by blast
    next
      assume "\<exists>a b. cs = a @ k @ b"
      then obtain a b where "c # cs = (c # a) @ k @ b" by auto
      then show ?thesis by blast
    qed
  qed
  with Cons.IH show ?case by (simp add: startsWith_iff)
qed

text \<open>
  C2, as the code has it. Each keyword test asks whether some keyword of the role is a
  substring of the lower-cased identifier, and the three tests of the loop are
  independent \<open>if\<close> statements: a column with a truthy value sets the field of every
  role whose test succeeds, and leaves the other fields as they were. Nothing makes the
  roles exclusive.
\<close>

theorem webhook_column_roles_independent:
  "(isPhoneColumn k \<longleftrightarrow> (\<exists>kw\<in>set phoneKeywords. \<exists>a b. toLowerCase k = a @ kw @ b))
   \<and> (isEmailColumn k \<longleftrightarrow> (\<exists>kw\<in>set emailKeywords. \<exists>a b. toLowerCase k = a @ kw @ b))
   \<and> (isCompanyColumn k \<longleftrightarrow> (\<exists>kw\<in>set companyKeywords. \<exists>a b. toLowerCase k = a @ kw @ b))
   \<and> lead_phone (webhook_column cv l k) =
     (if isPhoneColumn k \<and> truthy (prop_of cv k) then extractPhone (prop_of cv k)
      else lead_phone l)
   \<and> lead_email (webhook_column cv l k) =
     (if isEmailColumn k \<and> truthy (prop_of cv k) then extractEmail (prop_of cv k)
      else lead_email l)
   \<and> lead_company (webhook_column cv l k) =
     (if isCompanyColumn k \<and> truthy (prop_of cv k)
      then js_or (js_or (prop_of (prop_of cv k) ''text'') (prop_of (prop_of cv k) ''value''))
             (prop_of cv k)
      else lead_company l)"
proof -
  have r: "(isPhoneColumn k \<longleftrightarrow> (\<exists>kw\<in>set phoneKeywords. \<exists>a b. toLowerCase k = a @ kw @ b))
   \<and> (isEmailColumn k \<longleftrightarrow> (\<exists>kw\<in>set emailKeywords. \<exists>a b. toLowerCase k = a @ kw @ b))
   \<and> (isCompanyColumn k \<longleftrightarrow> (\<exists>kw\<in>set companyKeywords. \<exists>a b. toLowerCase k = a @ kw @ b))"
    by (simp only: isPhoneColumn_def isEmailColumn_def isCompanyColumn_def list_ex_iff
          str_includes_iff simp_thms)
  from r webhook_column_fields [of cv l k] show ?thesis by (intro conjI) blast+
qed

text \<open>
  The identifier \<open>Phone_Email\<close> passes the phone test and the email test, and its
  value becomes both the phone and the email.
\<close>

theorem webhook_column_roles_independent_witness:
  "isPhoneColumn ''Phone_Email'' \<and> isEmailColumn ''Phone_Email''
   \<and> \<not> isCompanyColumn ''Phone_Email''
   \<and> lead_phone (webhook_column (JObj [(''Phone_Email'', JStr ''1234567890@b.co'')])
        sample_lead ''Phone_Email'') = JStr ''+551234567890''
   \<and> lead_email (webhook_column (JObj [(''Phone_Email'', JStr ''1234567890@b.co'')])
        sample_lead ''Phone_Email'') = JStr ''1234567890@b.co''
   \<and> lead_company (webhook_column (JObj [(''Phone_Email'', JStr ''1234567890@b.co'')])
        sample_lead ''Phone_Email'') = lead_company sample_lead"
proof -
  let ?cv = "JObj [(''Phone_Email'', JStr ''1234567890@b.co'')]"
  have k: "isPhoneColumn ''Phone_Email'' \<and> isEmailColumn ''Phone_Email''
           \<and> \<not> isCompanyColumn ''Phone_Email''"
    by code_simp
  have v: "prop_of ?cv ''Phone_Email'' = JStr ''1234567890@b.co''"
    by simp
  have p: "extractPhone (JStr ''1234567890@b.co'') = JStr ''+551234567890''"
    by code_simp
  have e: "extractEmail (JStr ''1234567890@b.co'') = JStr ''1234567890@b.co''"
    by code_simp
  from webhook_column_roles_independent [of "''Phone_Email''" ?cv sample_lead] k v p e
  show ?thesis by simp
qed

text \<open>
  C2 as stated fails on an identifier with keywords of two roles: \<open>phone_email\<close> is a
  phone column by the priority order, and the one column sets both the phone and the
  email of the record (the CRM gave nothing).
\<close>

theorem column_in_two_roles_counterexample:
  "spec_classifyColumn ''phone_email'' = Phone
   \<and> fetched offline_world = None
   \<and> map_option lead_phone
       (returned (processWebhook offline_world
          (sample_event (JObj [(''phone_email'', JStr ''1234567890@b.co'')]))))
       = Some (JStr ''+551234567890'')
   \<and> map_option lead_email
       (returned (processWebhook offline_world
          (sample_event (JObj [(''phone_email'', JStr ''1234567890@b.co'')]))))
       = Some (JStr ''1234567890@b.co'')"
  by code_simp

section \<open>The relay\<close>

lemma webhook_monday_null:
  assumes "processWebhook w d = Inr None" and "\<not> nullish d"
    and "\<not> truthy (prop_of d ''challenge'')"
  shows "webhook_monday cfg w d =
           (Inr (Response 400 (JObj [(''error'', JStr invalid_webhook)])), [])"
  using assms by (simp add: webhook_monday_def get_prop_def)

lemma webhook_monday_null_sends_nothing:
  assumes "processWebhook w d = Inr None"
  shows "snd (webhook_monday cfg w d) = []"
  using assms by (simp add: webhook_monday_def get_prop_def)

lemma webhook_monday_no_phone:
  assumes "processWebhook w d = Inr (Some l)" and "\<not> truthy (lead_phone l)"
    and "\<not> nullish d" and "\<not> truthy (prop_of d ''challenge'')"
  shows "webhook_monday cfg w d =
           (Inr (Response 200 (JObj [(''message'', JStr ''Lead sem telefone, ignorado'')])), [])"
  using assms by (simp add: webhook_monday_def get_prop_def)

lemma recognized_not_nullish: "recognized d \<Longrightarrow> \<not> nullish d"
  by (cases d) (simp_all add: recognized_def eventType_of_def opt_def)

lemma processWebhook_nullish: "nullish d \<Longrightarrow> processWebhook w d = Inr None"
  by (simp add: processWebhook_def processWebhook_body_def try_catch_def)

text \<open>
  C4. The Normalizer returns a lead record exactly when the event type token is
  \<open>create_pulse\<close>, \<open>change_column_value\<close> or \<open>update_column_value\<close>. For any other
  event type it returns the rejection \<open>null\<close> (it does not throw), and the Relay sends
  nothing to the calling provider for that request.
\<close>

theorem unrecognized_event_rejected:
  "((\<exists>l. processWebhook w d = Inr (Some l)) \<longleftrightarrow>
      eventType_of d \<in> {JStr ''create_pulse'', JStr ''change_column_value'',
                         JStr ''update_column_value''})
   \<and> (eventType_of d \<notin> {JStr ''create_pulse'', JStr ''change_column_value'',
                           JStr ''update_column_value''}
        \<longrightarrow> processWebhook w d = Inr None \<and> snd (webhook_monday cfg w d) = [])"
proof -
  have r: "recognized d \<longleftrightarrow>
      eventType_of d \<in> {JStr ''create_pulse'', JStr ''change_column_value'',
                         JStr ''update_column_value''}"
    by (auto simp: recognized_def)
  have a: "(\<exists>l. processWebhook w d = Inr (Some l)) \<longleftrightarrow> recognized d"
    using processWebhook_recognized recognized_processWebhook by blast
  have b: "processWebhook w d = Inr None \<and> snd (webhook_monday cfg w d) = []"
    if "\<not> recognized d"
    using not_recognized_processWebhook [OF that]
    by (simp add: webhook_monday_null_sends_nothing)
  from a b r show ?thesis by blast
qed

theorem unrecognized_event_rejected_witness:
  "eventType_of unknown_event = JStr ''unknown_event''
   \<and> processWebhook sample_world unknown_event = Inr None
   \<and> snd (webhook_monday sample_config sample_world unknown_event) = []"
proof -
  have t: "eventType_of unknown_event = JStr ''unknown_event''"
    by (simp add: eventType_of_def unknown_event_def opt_def)
  then have "eventType_of unknown_event \<notin> {JStr ''create_pulse'', JStr ''change_column_value'',
                           JStr ''update_column_value''}"
    by simp
  with unrecognized_event_rejected [of sample_world unknown_event sample_config] t
  show ?thesis by blast
qed

text \<open>
  C6. Take a recognised event (without a verification challenge) from which no phone
  can be resolved: the last truthy phone column of the webhook does not normalise, or
  there is none and the CRM fetch gave no phone. The Normalizer still returns a record,
  with the phone absent; the Relay answers 200 with the message that the lead without
  phone was ignored, and sends nothing to the calling provider.
\<close>

theorem lead_without_phone_ignored:
  assumes "recognized d" and "\<not> truthy (prop_of d ''challenge'')"
    and "case matched_value isPhoneColumn (prop_of d ''columnValues'') of
           None \<Rightarrow> \<not> truthy (item_opt item_phone (fetched w))
         | Some v \<Rightarrow> extractPhone v = JNull"
  shows "(\<exists>l. processWebhook w d = Inr (Some l) \<and> lead_phone l = JNull)
       \<and> webhook_monday cfg w d =
           (Inr (Response 200 (JObj [(''message'', JStr ''Lead sem telefone, ignorado'')])), [])"
proof -
  obtain l where l: "processWebhook w d = Inr (Some l)"
    using recognized_processWebhook [OF assms(1)] by blast
  have p: "lead_phone l = JNull"
    using processWebhook_phone [OF l] assms(3)
    by (auto simp: js_or_def split: option.splits)
  then have "\<not> truthy (lead_phone l)" by simp
  from webhook_monday_no_phone [OF l this recognized_not_nullish [OF assms(1)] assms(2)] l p
  show ?thesis by blast
qed

text \<open>An item-created event without columns while the CRM cannot be reached.\<close>

theorem lead_without_phone_ignored_witness:
  "recognized (sample_event (JObj []))
   \<and> map_option lead_phone (returned (processWebhook offline_world (sample_event (JObj []))))
       = Some JNull
   \<and> webhook_monday sample_config offline_world (sample_event (JObj [])) =
       (Inr (Response 200 (JObj [(''message'', JStr ''Lead sem telefone, ignorado'')])), [])"
proof -
  let ?d = "sample_event (JObj [])"
  have c: "\<not> truthy (prop_of ?d ''challenge'')"
    by code_simp
  have n: "case matched_value isPhoneColumn (prop_of ?d ''columnValues'') of
           None \<Rightarrow> \<not> truthy (item_opt item_phone (fetched offline_world))
         | Some v \<Rightarrow> extractPhone v = JNull"
    by code_simp
  from lead_without_phone_ignored [OF recognized_sample_event c n, of sample_config]
  show ?thesis
    by (auto simp: returned_def recognized_sample_event)
qed

text \<open>
  C10. \<open>processWebhook\<close> never throws: for every payload and every reply of the CRM it
  returns a lead record or \<open>null\<close>. Errors inside are turned into \<open>null\<close>: a failing
  CRM fetch makes \<open>fetchItemDetails\<close> return \<open>null\<close>, and a payload that cannot be
  destructured makes \<open>processWebhook\<close> return \<open>null\<close>. When the Relay has called it
  (the body is there and carries no challenge) and got \<open>null\<close>, it answers with the
  client error 400 and nothing else happens.
\<close>

theorem processWebhook_never_throws:
  "(\<exists>r. processWebhook w d = Inr r)
   \<and> (\<exists>r. fetchItemDetails reply = Inr r)
   \<and> fetchItemDetails (Rejected e m) = Inr None
   \<and> processWebhook w JNull = Inr None
   \<and> processWebhook w JUndefined = Inr None
   \<and> (processWebhook w d = Inr None \<and> \<not> nullish d \<and> \<not> truthy (prop_of d ''challenge'')
        \<longrightarrow> webhook_monday cfg w d =
              (Inr (Response 400 (JObj [(''error'', JStr invalid_webhook)])), []))"
proof -
  have a: "\<exists>r. processWebhook w d = Inr r"
    by (cases "recognized d")
       (auto dest: recognized_processWebhook not_recognized_processWebhook)
  have b: "fetchItemDetails (Rejected e m) = Inr None"
    by (simp add: fetchItemDetails_def fetchItemDetails_body_def try_catch_def)
  from a b fetchItemDetails_returns [of reply] processWebhook_nullish [of JNull w]
    processWebhook_nullish [of JUndefined w] webhook_monday_null [of w d cfg]
  show ?thesis by simp
qed

theorem processWebhook_never_throws_witness:
  "processWebhook offline_world unknown_event = Inr None
   \<and> webhook_monday sample_config offline_world unknown_event =
       (Inr (Response 400 (JObj [(''error'', JStr invalid_webhook)])), [])"
proof -
  have n: "processWebhook offline_world unknown_event = Inr None"
    by (rule not_recognized_processWebhook)
       (simp add: recognized_def eventType_of_def unknown_event_def opt_def)
  have d: "\<not> nullish unknown_event \<and> \<not> truthy (prop_of unknown_event ''challenge'')"
    by (simp add: unknown_event_def)
  from processWebhook_never_throws [of offline_world unknown_event _ _ _ sample_config] n d
  show ?thesis by blast
qed

section \<open>Calling the provider\<close>

lemma not_configured_message:
  "str_includes ''ElevenLabs credentials not configured'' ''not configured''"
  by code_simp

lemma initiateCall_unconfigured:
  assumes "\<not> truthy (env_val (apiKey cfg)) \<or> \<not> truthy (env_val (agentId cfg))"
  shows "initiateCall cfg w l = (Inr (simulateCall w l), [])"
  using assms not_configured_message
  by (auto simp: initiateCall_def initiateCall_body_def try_catch_def)

text \<open>
  C5. Whenever the API key or the agent identifier is absent (unset or empty),
  \<open>initiateCall\<close> does not throw: for every lead record it returns the simulated
  result, flagged \<open>success\<close> and \<open>simulation\<close>, whose call identifier is made up from
  the clock; nothing is sent to the provider. So the manual test with a phone answers
  200 with that simulated result.
\<close>

theorem initiateCall_simulated_without_credentials:
  assumes "\<not> truthy (env_val (apiKey cfg)) \<or> \<not> truthy (env_val (agentId cfg))"
  shows "initiateCall cfg w l = (Inr (simulateCall w l), [])
       \<and> prop_of (simulateCall w l) ''success'' = JBool True
       \<and> prop_of (simulateCall w l) ''simulation'' = JBool True
       \<and> prop_of (simulateCall w l) ''status'' = JStr ''simulated''
       \<and> prop_of (simulateCall w l) ''call_id'' = JStr (''sim_'' @ decimal (date_now w))
       \<and> prop_of (simulateCall w l) ''phone'' = lead_phone l
       \<and> (truthy (prop_of body ''phone'') \<longrightarrow>
            (\<exists>t. lead_phone t = prop_of body ''phone''
                \<and> test_call cfg w body =
                    (Inr (Response 200
                       (JObj [(''success'', JBool True),
                              (''message'', JStr ''Chamada de teste iniciada''),
                              (''callResult'', simulateCall w t)])), [])))"
proof -
  have s: "prop_of (simulateCall w l) ''success'' = JBool True
       \<and> prop_of (simulateCall w l) ''simulation'' = JBool True
       \<and> prop_of (simulateCall w l) ''status'' = JStr ''simulated''
       \<and> prop_of (simulateCall w l) ''call_id'' = JStr (''sim_'' @ decimal (date_now w))
       \<and> prop_of (simulateCall w l) ''phone'' = lead_phone l"
    by (simp add: simulateCall_def)
  have t: "\<exists>t. lead_phone t = prop_of body ''phone''
                \<and> test_call cfg w body =
                    (Inr (Response 200
                       (JObj [(''success'', JBool True),
                              (''message'', JStr ''Chamada de teste iniciada''),
                              (''callResult'', simulateCall w t)])), [])"
    if p: "truthy (prop_of body ''phone'')"
  proof -
    have nn: "\<not> nullish body"
      using p by (cases body) simp_all
    let ?t = "\<lparr>lead_id = JStr (''test-'' @ decimal (date_now w)),
                lead_name = js_or (prop_of body ''name'') (JStr ''Teste''),
                lead_boardId = JUndefined,
                lead_phone = prop_of body ''phone'',
                lead_email = JUndefined,
                lead_company = JUndefined,
                lead_source = JStr ''manual-test'',
                lead_createdAt = JUndefined,
                lead_eventType = JUndefined,
                lead_columnId = JUndefined,
                lead_columnValue = JUndefined,
                lead_mcpData = None\<rparr>"
    have "test_call cfg w body =
            (Inr (Response 200
                       (JObj [(''success'', JBool True),
                              (''message'', JStr ''Chamada de teste iniciada''),
                              (''callResult'', simulateCall w ?t)])), [])"
      using p nn by (simp add: test_call_def Let_def initiateCall_unconfigured [OF assms])
    moreover have "lead_phone ?t = prop_of body ''phone''" by simp
    ultimately show ?thesis by blast
  qed
  from initiateCall_unconfigured [OF assms, of w l] s t show ?thesis by blast
qed

text \<open>No API key is set; the lead is the one the manual test builds for Ana.\<close>

theorem initiateCall_simulated_without_credentials_witness:
  "apiKey sample_config = None
   \<and> initiateCall sample_config sample_world sample_lead
       = (Inr (simulateCall sample_world sample_lead), [])
   \<and> prop_of (simulateCall sample_world sample_lead) ''call_id'' = JStr ''sim_1700000000000''
   \<and> prop_of (simulateCall sample_world sample_lead) ''simulation'' = JBool True
   \<and> fst (test_call sample_config sample_world
            (JObj [(''phone'', JStr ''+5511988887777''), (''name'', JStr ''Ana'')]))
       = Inr (Response 200
               (JObj [(''success'', JBool True),
                      (''message'', JStr ''Chamada de teste iniciada''),
                      (''callResult'', simulateCall sample_world sample_lead)]))"
proof -
  let ?body = "JObj [(''phone'', JStr ''+5511988887777''), (''name'', JStr ''Ana'')]"
  have k: "apiKey sample_config = None"
    by (simp add: sample_config_def)
  then have h: "\<not> truthy (env_val (apiKey sample_config))
                \<or> \<not> truthy (env_val (agentId sample_config))"
    by (simp add: env_val_def)
  have n: "''sim_'' @ decimal (date_now sample_world) = ''sim_1700000000000''"
    by code_simp
  have p: "truthy (prop_of ?body ''phone'')"
    by simp
  have b: "prop_of ?body ''phone'' = JStr ''+5511988887777''"
    by simp
  have tc: "fst (test_call sample_config sample_world ?body)
       = Inr (Response 200
               (JObj [(''success'', JBool True),
                      (''message'', JStr ''Chamada de teste iniciada''),
                      (''callResult'', simulateCall sample_world sample_lead)]))"
    by code_simp
  from initiateCall_simulated_without_credentials [OF h, of sample_world sample_lead ?body]
    k n p tc
  show ?thesis by simp
qed

lemma foldl_mcpData:
  "lead_mcpData (foldl (webhook_column cv) l ks) = lead_mcpData l"
  by (induction ks rule: rev_induct) (simp_all add: webhook_column_def Let_def)

lemma processWebhook_mcpData:
  assumes "processWebhook w d = Inr (Some l)"
  shows "lead_mcpData l = fetched w"
  using assms
  unfolding processWebhook_def processWebhook_body_def try_catch_def
  by (auto simp: Let_def fetchItemDetails_fetched foldl_mcpData split: if_splits)

text \<open>What the fetch writes into \<open>columns\<close> for a column: its text, else its value.\<close>

lemma fetch_column_columns:
  assumes "fetch_column i c = Inr i'" and "prop_of c ''id'' = JStr k"
  shows "item_columns i' =
           (item_columns i)(k \<mapsto> js_or (prop_of c ''text'') (prop_of c ''value''))"
  using assms by (auto simp: fetch_column_def Let_def split: if_splits)

text \<open>
  C7. For every lead record the Call Request Builder sets \<open>customer_name\<close> to the
  record's name, or to \<open>"Customer"\<close> when the name is empty or absent (falsy), and
  \<open>company_name\<close> to the first non-empty (truthy) of: the entry under the key
  \<open>lead_company\<close> in the columns of the fetched CRM item that the record carries
  (\<open>mcpData.columns\<close>, when the record carries an item and the item has that column),
  the record's company, and the fixed \<open>"your restaurant"\<close>. A string is truthy when
  it is not empty; \<open>null\<close> and \<open>undefined\<close> are not. The item a record from the
  webhook carries is the one the CRM fetch of its request returned, and the fetch
  stores each column of the item under the column's identifier.
\<close>

theorem prepareCallData_variables:
  "customer_name (dynamic_variables (prepareCallData cfg l)) =
     (if truthy (lead_name l) then lead_name l else JStr ''Customer'')
   \<and> company_name (dynamic_variables (prepareCallData cfg l)) =
     (let others = (if truthy (lead_company l) then lead_company l
                    else JStr ''your restaurant'')
      in case lead_mcpData l of
           None \<Rightarrow> others
         | Some item \<Rightarrow>
             (case item_columns item ''lead_company'' of
                None \<Rightarrow> others
              | Some c \<Rightarrow> if truthy c then c else others))
   \<and> truthy (JStr s) = (s \<noteq> [])
   \<and> \<not> truthy JNull \<and> \<not> truthy JUndefined
   \<and> (processWebhook w d = Inr (Some l) \<longrightarrow> lead_mcpData l = fetched w)
   \<and> (fetch_column i c = Inr i' \<and> prop_of c ''id'' = JStr k \<longrightarrow>
        item_columns i' =
          (item_columns i)(k \<mapsto> js_or (prop_of c ''text'') (prop_of c ''value'')))"
proof -
  have a: "customer_name (dynamic_variables (prepareCallData cfg l)) =
     (if truthy (lead_name l) then lead_name l else JStr ''Customer'')"
    by (simp add: prepareCallData_def js_or_def Let_def)
  have b: "company_name (dynamic_variables (prepareCallData cfg l)) =
     (let others = (if truthy (lead_company l) then lead_company l
                    else JStr ''your restaurant'')
      in case lead_mcpData l of
           None \<Rightarrow> others
         | Some item \<Rightarrow>
             (case item_columns item ''lead_company'' of
                None \<Rightarrow> others
              | Some c \<Rightarrow> if truthy c then c else others))"
    by (simp add: prepareCallData_def mcp_lead_company_def js_or_def Let_def
             split: option.splits)
  have t: "truthy (JStr s) = (s \<noteq> []) \<and> \<not> truthy JNull \<and> \<not> truthy JUndefined"
    by simp
  from a b t processWebhook_mcpData [of w d l] fetch_column_columns [of i c i' k]
  show ?thesis by blast
qed

text \<open>
  The CRM item of Ana has the column \<open>lead_company\<close> with the text \<open>Padaria Ana\<close>;
  the webhook brings \<open>Outra Ltda\<close> under \<open>company\<close>, which becomes the record's
  company. The call is made with the CRM column. When the CRM cannot be reached the
  record carries no item and the call is made with the record's company. The record of
  the manual test has neither, and the call is made with the fixed text.
\<close>

theorem prepareCallData_variables_witness:
  "map_option lead_company
     (returned (processWebhook sample_world
        (sample_event (JObj [(''company'', JStr ''Outra Ltda'')]))))
     = Some (JStr ''Outra Ltda'')
   \<and> map_option (company_name \<circ> dynamic_variables \<circ> prepareCallData sample_config)
     (returned (processWebhook sample_world
        (sample_event (JObj [(''company'', JStr ''Outra Ltda'')]))))
     = Some (JStr ''Padaria Ana'')
   \<and> map_option (customer_name \<circ> dynamic_variables \<circ> prepareCallData sample_config)
     (returned (processWebhook sample_world
        (sample_event (JObj [(''company'', JStr ''Outra Ltda'')]))))
     = Some (JStr ''Ana'')
   \<and> map_option (company_name \<circ> dynamic_variables \<circ> prepareCallData sample_config)
     (returned (processWebhook offline_world
        (sample_event (JObj [(''company'', JStr ''Outra Ltda'')]))))
     = Some (JStr ''Outra Ltda'')
   \<and> customer_name (dynamic_variables (prepareCallData sample_config sample_lead)) = JStr ''Ana''
   \<and> company_name (dynamic_variables (prepareCallData sample_config sample_lead))
       = JStr ''your restaurant''
   \<and> map_sum id (\<lambda>item. item_columns item ''lead_company'')
       (fetch_column
          \<lparr>item_id = JStr ''7'', item_name = JStr ''Ana'', item_phone = JNull,
           item_email = JNull, item_company = JNull, item_columns = Map.empty\<rparr>
          (JObj [(''id'', JStr ''lead_company''), (''text'', JStr ''Padaria Ana'')]))
       = Inr (Some (JStr ''Padaria Ana''))"
proof -
  let ?d = "sample_event (JObj [(''company'', JStr ''Outra Ltda'')])"
  let ?i = "\<lparr>item_id = JStr ''7'', item_name = JStr ''Ana'', item_phone = JNull,
           item_email = JNull, item_company = JNull, item_columns = Map.empty\<rparr>"
  let ?c = "JObj [(''id'', JStr ''lead_company''), (''text'', JStr ''Padaria Ana'')]"
  (* the record made while the CRM answers *)
  obtain l where l: "processWebhook sample_world ?d = Inr (Some l)"
    using recognized_processWebhook [OF recognized_sample_event] by blast
  have "map_option lead_name (returned (processWebhook sample_world ?d)) = Some (JStr ''Ana'')"
    by code_simp
  then have n: "lead_name l = JStr ''Ana''"
    by (simp add: l returned_def)
  have "map_option lead_company (returned (processWebhook sample_world ?d))
          = Some (JStr ''Outra Ltda'')"
    by code_simp
  then have co: "lead_company l = JStr ''Outra Ltda''"
    by (simp add: l returned_def)
  have f: "map_option (\<lambda>item. item_columns item ''lead_company'') (fetched sample_world)
             = Some (Some (JStr ''Padaria Ana''))"
    by code_simp
  from prepareCallData_variables [of sample_config l _ sample_world ?d] l
  have m: "lead_mcpData l = fetched sample_world"
    by blast
  from f obtain item where item: "fetched sample_world = Some item"
      "item_columns item ''lead_company'' = Some (JStr ''Padaria Ana'')"
    by (cases "fetched sample_world") auto
  from prepareCallData_variables [of sample_config l] n co m item
  have a: "customer_name (dynamic_variables (prepareCallData sample_config l)) = JStr ''Ana''
           \<and> company_name (dynamic_variables (prepareCallData sample_config l))
               = JStr ''Padaria Ana''"
    by simp
  (* the record made while the CRM cannot be reached *)
  obtain l' where l': "processWebhook offline_world ?d = Inr (Some l')"
    using recognized_processWebhook [OF recognized_sample_event] by blast
  have "map_option lead_company (returned (processWebhook offline_world ?d))
          = Some (JStr ''Outra Ltda'')"
    by code_simp
  then have co': "lead_company l' = JStr ''Outra Ltda''"
    by (simp add: l' returned_def)
  have f': "fetched offline_world = None"
    by code_simp
  from prepareCallData_variables [of sample_config l' _ offline_world ?d] l'
  have m': "lead_mcpData l' = fetched offline_world"
    by blast
  from prepareCallData_variables [of sample_config l'] co' m' f'
  have b: "company_name (dynamic_variables (prepareCallData sample_config l'))
             = JStr ''Outra Ltda''"
    by simp
  (* the record of the manual test *)
  from prepareCallData_variables [of sample_config sample_lead]
  have c: "customer_name (dynamic_variables (prepareCallData sample_config sample_lead))
             = JStr ''Ana''
           \<and> company_name (dynamic_variables (prepareCallData sample_config sample_lead))
               = JStr ''your restaurant''"
    by (simp add: sample_lead_def)
  (* one column stored by the fetch *)
  obtain i' where i': "fetch_column ?i ?c = Inr i'"
    by (simp add: fetch_column_def Let_def)
  have k: "prop_of ?c ''id'' = JStr ''lead_company''"
    by simp
  from prepareCallData_variables [of _ _ _ _ _ ?i ?c i' "''lead_company''"] i' k
  have "item_columns i' =
          (item_columns ?i)(''lead_company'' \<mapsto>
             js_or (prop_of ?c ''text'') (prop_of ?c ''value''))"
    by blast
  then have e: "item_columns i' ''lead_company'' = Some (JStr ''Padaria Ana'')"
    by (simp add: js_or_def)
  from a b c e co show ?thesis
    by (simp add: l l' i' returned_def)
qed

section \<open>Email validation\<close>

lemma rx_test_One:
  "rx_test (One p # r) s \<longleftrightarrow> (\<exists>c cs. s = c # cs \<and> p c \<and> rx_test r cs)"
  by (cases s) simp_all

text \<open>A \<open>+\<close> takes a prefix that is not empty and lies in the class.\<close>

lemma rx_test_Plus:
  "rx_test (Plus p # r) s \<longleftrightarrow>
     (\<exists>a b. s = a @ b \<and> a \<noteq> [] \<and> (\<forall>c\<in>set a. p c) \<and> rx_test r b)"
proof (induction s)
  case Nil
  then show ?case by simp
next
  case (Cons c cs)
  show ?case
  proof
    assume m: "rx_test (Plus p # r) (c # cs)"
    then have pc: "p c" by simp
    from m have "rx_test r cs \<or> rx_test (Plus p # r) cs" by simp
    then show "\<exists>a b. c # cs = a @ b \<and> a \<noteq> [] \<and> (\<forall>c\<in>set a. p c) \<and> rx_test r b"
    proof
      assume "rx_test r cs"
      with pc have "c # cs = [c] @ cs \<and> [c] \<noteq> [] \<and> (\<forall>x\<in>set [c]. p x) \<and> rx_test r cs"
        by simp
      then show ?thesis by blast
    next
      assume "rx_test (Plus p # r) cs"
      with Cons.IH obtain a b where ab: "cs = a @ b" "a \<noteq> []" "\<forall>x\<in>set a. p x" "rx_test r b"
        by blast
      with pc have "c # cs = (c # a) @ b \<and> c # a \<noteq> [] \<and> (\<forall>x\<in>set (c # a). p x) \<and> rx_test r b"
        by simp
      then show ?thesis by blast
    qed
  next
    assume "\<exists>a b. c # cs = a @ b \<and> a \<noteq> [] \<and> (\<forall>c\<in>set a. p c) \<and> rx_test r b"
    then obtain a b where ab: "c # cs = a @ b" "a \<noteq> []" "\<forall>x\<in>set a. p x" "rx_test r b"
      by blast
    from ab(2) obtain a' where a: "a = c # a'" "cs = a' @ b"
      using ab(1) by (cases a) auto
    with ab(3) have pc: "p c" by simp
    show "rx_test (Plus p # r) (c # cs)"
    proof (cases "a' = []")
      case True
      with a ab(4) pc show ?thesis by simp
    next
      case False
      with a ab(3) ab(4) have "\<exists>a b. cs = a @ b \<and> a \<noteq> [] \<and> (\<forall>c\<in>set a. p c) \<and> rx_test r b"
        by auto
      with Cons.IH pc show ?thesis by simp
    qed
  qed
qed

lemma rx_test_Plus_last:
  "rx_test [Plus p] s \<longleftrightarrow> s \<noteq> [] \<and> (\<forall>c\<in>set s. p c)"
  by (simp add: rx_test_Plus)

text \<open>What the regular expression accepts: \<open>local@domain.tld\<close>, cut at one \<open>@\<close> and one \<open>.\<close>.\<close>

lemma emailRegex_split:
  "rx_test emailRegex s \<longleftrightarrow>
     (\<exists>a b c. s = a @ CHR ''@'' # b @ CHR ''.'' # c \<and> a \<noteq> [] \<and> b \<noteq> [] \<and> c \<noteq> []
        \<and> (\<forall>x\<in>set a. not_space_at x) \<and> (\<forall>x\<in>set b. not_space_at x)
        \<and> (\<forall>x\<in>set c. not_space_at x))"
  unfolding emailRegex_def
  by (simp add: rx_test_Plus rx_test_One rx_test_Plus_last) blast

lemma is_space_at: "\<not> is_space (CHR ''@'')" "\<not> is_space (CHR ''.'')"
  by (simp_all add: is_space_def)

lemma spec_email_pattern_split:
  "spec_email_pattern s \<longleftrightarrow>
     (\<exists>a b c. s = a @ CHR ''@'' # b @ CHR ''.'' # c \<and> a \<noteq> [] \<and> b \<noteq> [] \<and> c \<noteq> []
        \<and> (\<forall>x\<in>set a. not_space_at x) \<and> (\<forall>x\<in>set b. not_space_at x)
        \<and> (\<forall>x\<in>set c. not_space_at x))"
proof
  assume sp: "spec_email_pattern s"
  then have ns: "\<forall>c\<in>set s. \<not> is_space c" and one: "count_list s (CHR ''@'') = 1"
    by (simp_all add: spec_email_pattern_def)
  from sp obtain i j where ij: "i < length s" "j < length s" "s ! i = CHR ''@''"
      "s ! j = CHR ''.''" "0 < i" "i + 1 < j" "j + 1 < length s"
    by (auto simp: spec_email_pattern_def list_ex_iff)
  define a where "a = take i s"
  define t where "t = drop (Suc i) s"
  define b where "b = take (j - Suc i) t"
  define c where "c = drop (Suc (j - Suc i)) t"
  have s1: "s = a @ CHR ''@'' # t"
    using id_take_nth_drop [OF ij(1)] ij(3) by (simp add: a_def t_def)
  have jt: "j - Suc i < length t" using ij by (simp add: t_def)
  have tj: "t ! (j - Suc i) = CHR ''.''"
    using ij by (simp add: t_def)
  have t1: "t = b @ CHR ''.'' # c"
    using id_take_nth_drop [OF jt] tj by (simp add: b_def c_def)
  have s2: "s = a @ CHR ''@'' # b @ CHR ''.'' # c"
    using s1 t1 by simp
  have ne: "a \<noteq> []" "b \<noteq> []" "c \<noteq> []"
    using ij jt by (auto simp: a_def b_def c_def t_def)
  from one have "count_list a (CHR ''@'') = 0 \<and> count_list t (CHR ''@'') = 0"
    by (subst (asm) s1) simp
  then have noat: "CHR ''@'' \<notin> set a" "CHR ''@'' \<notin> set t"
    by (simp_all add: count_list_0_iff)
  have st: "set t = set b \<union> insert (CHR ''.'') (set c)"
    by (subst t1) simp
  have ss: "set s = set a \<union> insert (CHR ''@'') (set t)"
    by (subst s1) simp
  from ns noat have "(\<forall>x\<in>set a. not_space_at x) \<and> (\<forall>x\<in>set b. not_space_at x)
        \<and> (\<forall>x\<in>set c. not_space_at x)"
    by (auto simp: not_space_at_def ss st)
  with s2 ne show "\<exists>a b c. s = a @ CHR ''@'' # b @ CHR ''.'' # c \<and> a \<noteq> [] \<and> b \<noteq> [] \<and> c \<noteq> []
        \<and> (\<forall>x\<in>set a. not_space_at x) \<and> (\<forall>x\<in>set b. not_space_at x)
        \<and> (\<forall>x\<in>set c. not_space_at x)"
    by blast
next
  assume "\<exists>a b c. s = a @ CHR ''@'' # b @ CHR ''.'' # c \<and> a \<noteq> [] \<and> b \<noteq> [] \<and> c \<noteq> []
        \<and> (\<forall>x\<in>set a. not_space_at x) \<and> (\<forall>x\<in>set b. not_space_at x)
        \<and> (\<forall>x\<in>set c. not_space_at x)"
  then obtain a b c where s: "s = a @ CHR ''@'' # b @ CHR ''.'' # c"
    and ne: "a \<noteq> []" "b \<noteq> []" "c \<noteq> []"
    and cl: "\<forall>x\<in>set a. not_space_at x" "\<forall>x\<in>set b. not_space_at x" "\<forall>x\<in>set c. not_space_at x"
    by blast
  have ns: "\<forall>x\<in>set s. \<not> is_space x"
    using cl is_space_at by (auto simp: s not_space_at_def)
  have "CHR ''@'' \<notin> set a" "CHR ''@'' \<notin> set b" "CHR ''@'' \<notin> set c"
    using cl by (auto simp: not_space_at_def)
  then have one: "count_list s (CHR ''@'') = 1"
    by (simp add: s)
  let ?i = "length a" and ?j = "length a + 1 + length b"
  have i: "?i < length s" "s ! ?i = CHR ''@''" "0 < ?i"
    using ne by (simp_all add: s)
  have j: "?j < length s" "s ! ?j = CHR ''.''" "?i + 1 < ?j" "?j + 1 < length s"
    using ne by (simp_all add: s nth_append nth_Cons')
  have "\<exists>i\<in>{0..<length s}. \<exists>j\<in>{0..<length s}.
            s ! i = CHR ''@'' \<and> s ! j = CHR ''.'' \<and> 0 < i \<and> i + 1 < j \<and> j + 1 < length s"
    using i j by (intro bexI [of _ ?i] bexI [of _ ?j]) auto
  with ns one show "spec_email_pattern s"
    by (simp add: spec_email_pattern_def list_ex_iff)
qed

lemma emailRegex_spec: "rx_test emailRegex s = spec_email_pattern s"
  by (simp only: emailRegex_split spec_email_pattern_split)

lemma extractEmail_cases:
  "extractEmail d =
     (if spec_email_pattern (toString (select_text d)) then select_text d else JNull)"
  by (simp add: extractEmail_def extractEmail_body_def try_catch_def Let_def emailRegex_spec)

lemma null_is_no_email: "\<not> spec_email_pattern (toString JNull)"
  by (simp add: spec_email_pattern_def)

text \<open>
  C8. Email validation takes the text of its input (the input itself when it is a
  string, else its \<open>.text\<close> or \<open>.value\<close>, converted to a string by the test) and
  accepts it if and only if it has the form \<open>local@domain.tld\<close>: no whitespace,
  exactly one \<open>@\<close>, a \<open>.\<close> after the \<open>@\<close>, and nothing empty around them;
  otherwise the result is absent. \<open>"a@b.com"\<close> is accepted and \<open>"not-an-email"\<close> is
  absent.
\<close>

theorem extractEmail_accepts_pattern:
  "extractEmail d =
     (if spec_email_pattern (toString (select_text d)) then select_text d else JNull)
   \<and> (extractEmail d \<noteq> JNull \<longleftrightarrow> spec_email_pattern (toString (select_text d)))
   \<and> extractEmail (JStr s) = (if spec_email_pattern s then JStr s else JNull)
   \<and> extractEmail (JStr ''a@b.com'') = JStr ''a@b.com''
   \<and> extractEmail (JStr ''not-an-email'') = JNull"
proof -
  have a: "extractEmail d \<noteq> JNull \<longleftrightarrow> spec_email_pattern (toString (select_text d))"
    using null_is_no_email by (auto simp: extractEmail_cases)
  have b: "extractEmail (JStr s) = (if spec_email_pattern s then JStr s else JNull)"
    by (simp add: extractEmail_cases select_text_def is_string_def)
  have c: "extractEmail (JStr ''a@b.com'') = JStr ''a@b.com''"
    by code_simp
  have e: "extractEmail (JStr ''not-an-email'') = JNull"
    by code_simp
  from extractEmail_cases [of d] a b c e show ?thesis by (intro conjI)
qed

text \<open>An address under \<open>.text\<close>, and one with a blank in it.\<close>

theorem extractEmail_accepts_pattern_witness:
  "spec_email_pattern ''ana@crm.com''
   \<and> extractEmail (JObj [(''text'', JStr ''ana@crm.com'')]) = JStr ''ana@crm.com''
   \<and> \<not> spec_email_pattern ''ana @crm.com''
   \<and> extractEmail (JStr ''ana @crm.com'') = JNull"
proof -
  let ?d = "JObj [(''text'', JStr ''ana@crm.com'')]"
  have p: "spec_email_pattern ''ana@crm.com''"
    by code_simp
  have q: "\<not> spec_email_pattern ''ana @crm.com''"
    by code_simp
  have t: "select_text ?d = JStr ''ana@crm.com''"
    by code_simp
  from extractEmail_accepts_pattern [of ?d "''ana @crm.com''"] p q t
  show ?thesis by simp
qed

end
